theory Spec2Isabelle
  imports Complex_Main "HOL-Library.AList"
begin

section \<open>Python values\<close>

text \<open>
  The engines of \<^verbatim>\<open>src/backtest\<close> compute with Python floats. They are modelled as
  real numbers: every rounding of the floating-point arithmetic is left out, and so are
  the values inf and nan. Where Python's float division raises ZeroDivisionError the model
  returns that error. A datetime is the integer number of its day, so that
  \<^verbatim>\<open>(b - a).days\<close> is \<open>b - a\<close>. A dict is an association list in insertion order
  with at most one entry for a key: \<^verbatim>\<open>k in d\<close> is \<open>dict_in k d\<close>,
  \<^verbatim>\<open>d[k] = v\<close> is \<open>AList.update k v d\<close> (replace in place, or append),
  \<^verbatim>\<open>del d[k]\<close> is \<open>AList.delete k d\<close>.
\<close>

datatype py_error = ZeroDivisionError | IndexError | TypeError

datatype py_value = Num real | Str string | NaN

definition dict_in :: "'k \<Rightarrow> ('k \<times> 'v) list \<Rightarrow> bool" where
  "dict_in k d = (map_of d k \<noteq> None)"

text \<open>\<^verbatim>\<open>int(x)\<close> on a float truncates towards zero.\<close>

definition py_int :: "real \<Rightarrow> int" where
  "py_int x = (if 0 \<le> x then \<lfloor>x\<rfloor> else \<lceil>x\<rceil>)"

text \<open>\<^verbatim>\<open>round(x, n)\<close> rounds to \<open>n\<close> decimals, a tie going to the even digit.\<close>

definition round_half_even :: "real \<Rightarrow> int" where
  "round_half_even x =
     (let f = \<lfloor>x\<rfloor>; r = x - of_int f
      in if r < 1 / 2 then f else if 1 / 2 < r then f + 1
         else if even f then f else f + 1)"

definition py_round :: "real \<Rightarrow> nat \<Rightarrow> real" where
  "py_round x n = of_int (round_half_even (x * 10 ^ n)) / 10 ^ n"

text \<open>Truth value of an \<^verbatim>\<open>Optional[float]\<close>: None and 0.0 are false.\<close>

fun truthy :: "real option \<Rightarrow> bool" where
  "truthy None = False"
| "truthy (Some x) = (x \<noteq> 0)"

text \<open>\<^verbatim>\<open>np.mean\<close> and \<^verbatim>\<open>np.std\<close> (population standard deviation) of a
  non-empty list.\<close>

definition np_mean :: "real list \<Rightarrow> real" where
  "np_mean xs = sum_list xs / real (length xs)"

definition np_std :: "real list \<Rightarrow> real" where
  "np_std xs = sqrt (np_mean (map (\<lambda>x. (x - np_mean xs) ^ 2) xs))"

section \<open>The portfolio engine (\<^verbatim>\<open>portfolio_engine.py\<close>)\<close>

record Position =
  symbol :: string
  entry_date :: int
  entry_price :: real
  shares :: int
  stop_price :: real
  entry_value :: real
  current_value :: real
  unrealized_pnl :: real

text \<open>\<^verbatim>\<open>Position.update\<close>\<close>

definition update :: "Position \<Rightarrow> real \<Rightarrow> Position" where
  "update p current_price =
     (let cv = current_price * of_int (shares p)
      in p\<lparr>current_value := cv, unrealized_pnl := cv - entry_value p\<rparr>)"

text \<open>The fields of a \<^verbatim>\<open>ClosedTrade\<close> carry the prefix \<open>ct_\<close>.\<close>

record ClosedTrade =
  ct_symbol :: string
  ct_entry_date :: int
  ct_exit_date :: int
  ct_entry_price :: real
  ct_exit_price :: real
  ct_shares :: int
  ct_pnl :: real
  ct_pnl_pct :: real
  ct_exit_reason :: string
  ct_hold_days :: int
  ct_entry_value :: real
  ct_exit_value :: real

text \<open>The constructor arguments of \<^verbatim>\<open>PortfolioBacktestEngine\<close>.\<close>

record engine_config =
  initial_capital :: real
  commission_per_trade :: real
  commission_pct :: real
  slippage_pct :: real
  max_positions :: int
  max_position_pct :: real
  reserve_cash_pct :: real

text \<open>The mutable attributes of the engine.\<close>

record engine_state =
  cash :: real
  equity :: real
  positions :: "(string \<times> Position) list"
  closed_trades :: "ClosedTrade list"
  equity_curve :: "(int \<times> real \<times> real) list"
  daily_returns :: "real list"
  peak_equity :: real
  max_drawdown :: real

text \<open>The state that \<^verbatim>\<open>__init__\<close> sets up, and its default arguments.\<close>

definition init :: "engine_config \<Rightarrow> engine_state" where
  "init cfg =
     \<lparr>cash = initial_capital cfg, equity = initial_capital cfg, positions = [],
      closed_trades = [], equity_curve = [], daily_returns = [],
      peak_equity = initial_capital cfg, max_drawdown = 0\<rparr>"

definition default_config :: engine_config where
  "default_config =
     \<lparr>initial_capital = 100000, commission_per_trade = 1, commission_pct = 1 / 1000,
      slippage_pct = 1 / 1000, max_positions = 10, max_position_pct = 1 / 10,
      reserve_cash_pct = 5 / 100\<rparr>"

definition can_open_position :: "engine_config \<Rightarrow> engine_state \<Rightarrow> bool" where
  "can_open_position cfg s = (int (length (positions s)) < max_positions cfg)"

definition get_available_capital :: "engine_config \<Rightarrow> engine_state \<Rightarrow> real" where
  "get_available_capital cfg s =
     (let reserve = equity s * reserve_cash_pct cfg in max 0 (cash s - reserve))"

text \<open>The tail of \<^verbatim>\<open>open_position\<close> (lines 187 to 201): deduct the cost, store the
  position.\<close>

definition commit_position ::
  "engine_state \<Rightarrow> string \<Rightarrow> int \<Rightarrow> real \<Rightarrow> int \<Rightarrow> real \<Rightarrow> real \<Rightarrow> real \<Rightarrow> engine_state" where
  "commit_position s smb date actual_entry_price n stop position_value total_cost =
     s\<lparr>cash := cash s - total_cost,
       positions := AList.update smb
         \<lparr>symbol = smb, entry_date = date, entry_price = actual_entry_price, shares = n,
          stop_price = stop, entry_value = position_value, current_value = 0,
          unrealized_pnl = 0\<rparr> (positions s)\<rparr>"

definition open_position ::
  "engine_config \<Rightarrow> engine_state \<Rightarrow> string \<Rightarrow> int \<Rightarrow> real \<Rightarrow> int \<Rightarrow> real
     \<Rightarrow> py_error + (bool \<times> engine_state)" where
  "open_position cfg s smb date price n stop =
     (if dict_in smb (positions s) then Inr (False, s)
      else if \<not> can_open_position cfg s then Inr (False, s)
      else
        let actual_entry_price = price * (1 + slippage_pct cfg);
            position_value = actual_entry_price * of_int n;
            commission = max (commission_per_trade cfg) (position_value * commission_pct cfg);
            total_cost = position_value + commission
        in if cash s < total_cost then
             (let available = get_available_capital cfg s
              in if available < position_value * (1 / 2) then Inr (False, s)
                 else if actual_entry_price * (1 + commission_pct cfg) = 0
                   then Inl ZeroDivisionError
                 else
                   let n' = py_int (available / (actual_entry_price * (1 + commission_pct cfg)))
                   in if n' = 0 then Inr (False, s)
                      else
                        let position_value' = actual_entry_price * of_int n';
                            commission' = max (commission_per_trade cfg)
                                            (position_value' * commission_pct cfg);
                            total_cost' = position_value' + commission'
                        in Inr (True, commit_position s smb date actual_entry_price n' stop
                                        position_value' total_cost'))
           else Inr (True, commit_position s smb date actual_entry_price n stop
                             position_value total_cost))"

text \<open>\<^verbatim>\<open>close_position\<close>. The division for \<^verbatim>\<open>pnl_pct\<close> comes after the cash
  is credited; when it raises, the call is lost with its exception.\<close>

definition close_position ::
  "engine_config \<Rightarrow> engine_state \<Rightarrow> string \<Rightarrow> int \<Rightarrow> real \<Rightarrow> string
     \<Rightarrow> py_error + (bool \<times> engine_state)" where
  "close_position cfg s smb date price reason =
     (case map_of (positions s) smb of
        None \<Rightarrow> Inr (False, s)
      | Some position \<Rightarrow>
          let actual_exit_price = price * (1 - slippage_pct cfg);
              exit_value = actual_exit_price * of_int (shares position);
              commission = max (commission_per_trade cfg) (exit_value * commission_pct cfg);
              net_proceeds = exit_value - commission;
              pnl = net_proceeds - entry_value position
          in if entry_value position = 0 then Inl ZeroDivisionError
             else
               let trade =
                 \<lparr>ct_symbol = smb, ct_entry_date = entry_date position, ct_exit_date = date,
                  ct_entry_price = entry_price position, ct_exit_price = actual_exit_price,
                  ct_shares = shares position, ct_pnl = pnl,
                  ct_pnl_pct = pnl / entry_value position, ct_exit_reason = reason,
                  ct_hold_days = date - entry_date position,
                  ct_entry_value = entry_value position, ct_exit_value = exit_value\<rparr>
               in Inr (True, s\<lparr>cash := cash s + net_proceeds,
                               closed_trades := closed_trades s @ [trade],
                               positions := AList.delete smb (positions s)\<rparr>))"

text \<open>The loop of \<^verbatim>\<open>update_equity\<close> over \<^verbatim>\<open>self.positions.items()\<close>: positions
  with a current price are marked to it and summed.\<close>

fun mark_positions ::
  "(string \<times> real) list \<Rightarrow> (string \<times> Position) list \<Rightarrow> real
     \<Rightarrow> (string \<times> Position) list \<times> real" where
  "mark_positions current_prices [] position_value = ([], position_value)"
| "mark_positions current_prices ((smb, p) # ps) position_value =
     (case map_of current_prices smb of
        None \<Rightarrow>
          (let (ps', v) = mark_positions current_prices ps position_value
           in ((smb, p) # ps', v))
      | Some price \<Rightarrow>
          (let p' = update p price;
               (ps', v) = mark_positions current_prices ps (position_value + current_value p')
           in ((smb, p') # ps', v)))"

definition update_equity ::
  "engine_state \<Rightarrow> int \<Rightarrow> (string \<times> real) list \<Rightarrow> py_error + engine_state" where
  "update_equity s current_date current_prices =
     (let (ps, position_value) = mark_positions current_prices (positions s) 0;
          eq = cash s + position_value;
          peak = (if peak_equity s < eq then eq else peak_equity s)
      in if peak = 0 then Inl ZeroDivisionError
         else
           let current_drawdown = (peak - eq) / peak;
               mdd = (if max_drawdown s < current_drawdown then current_drawdown
                      else max_drawdown s);
               s1 = s\<lparr>positions := ps, equity := eq, peak_equity := peak,
                      max_drawdown := mdd,
                      equity_curve := equity_curve s @ [(current_date, eq, cash s)]\<rparr>
           in if 1 < length (equity_curve s1) then
                (let prev_equity = fst (snd (equity_curve s1 ! (length (equity_curve s1) - 2)))
                 in if prev_equity = 0 then Inl ZeroDivisionError
                    else Inr (s1\<lparr>daily_returns :=
                                   daily_returns s1 @ [(eq - prev_equity) / prev_equity]\<rparr>))
              else Inr s1)"

text \<open>A run of the engine is a sequence of calls of its three operations; an exception
  ends it.\<close>

datatype operation =
    Open string int real int real
  | Close string int real string
  | UpdateEquity int "(string \<times> real) list"

fun step :: "engine_config \<Rightarrow> engine_state \<Rightarrow> operation \<Rightarrow> py_error + engine_state" where
  "step cfg s (Open smb date price n stop) =
     map_sum id snd (open_position cfg s smb date price n stop)"
| "step cfg s (Close smb date price reason) =
     map_sum id snd (close_position cfg s smb date price reason)"
| "step cfg s (UpdateEquity date current_prices) = update_equity s date current_prices"

fun run_ops :: "engine_config \<Rightarrow> engine_state \<Rightarrow> operation list \<Rightarrow> py_error + engine_state" where
  "run_ops cfg s [] = Inr s"
| "run_ops cfg s (x # xs) =
     (case step cfg s x of Inl e \<Rightarrow> Inl e | Inr s' \<Rightarrow> run_ops cfg s' xs)"

subsection \<open>Inputs of the worked examples\<close>

definition one_open :: "operation list" where
  "one_open = [Open ''AAPL'' 0 100 10 95]"

definition state_one_open :: engine_state where
  "state_one_open =
     \<lparr>cash = 98997999 / 1000, equity = 100000,
      positions = [(''AAPL'', \<lparr>symbol = ''AAPL'', entry_date = 0, entry_price = 1001 / 10,
         shares = 10, stop_price = 95, entry_value = 1001, current_value = 0,
         unrealized_pnl = 0\<rparr>)],
      closed_trades = [], equity_curve = [], daily_returns = [],
      peak_equity = 100000, max_drawdown = 0\<rparr>"


section \<open>Properties of the portfolio engine\<close>

subsection \<open>The branches of the operations\<close>

lemma if_chain_cases:
  "(if A then Inr (False, s) else if B then Inr (False, s)
    else if C then (if D then Inr (False, s) else if E then Inl err
                    else if F then Inr (False, s) else Inr (True, X))
    else Inr (True, Y)) = Inr (b, s')
   \<Longrightarrow> (\<not> b \<and> s' = s) \<or> (b \<and> \<not> A \<and> \<not> B \<and> C \<and> \<not> D \<and> \<not> E \<and> \<not> F \<and> s' = X)
       \<or> (b \<and> \<not> A \<and> \<not> B \<and> \<not> C \<and> s' = Y)"
  by (simp split: if_splits)

lemma open_position_cases:
  assumes "open_position cfg s smb d p n stp = Inr (b, s')"
  shows "(\<not> b \<and> s' = s) \<or>
     (b \<and> \<not> dict_in smb (positions s) \<and> can_open_position cfg s \<and>
       (\<exists>m. s' = commit_position s smb d (p * (1 + slippage_pct cfg)) m stp
                (p * (1 + slippage_pct cfg) * of_int m)
                (p * (1 + slippage_pct cfg) * of_int m +
                 max (commission_per_trade cfg)
                   (p * (1 + slippage_pct cfg) * of_int m * commission_pct cfg))))"
  using if_chain_cases [OF assms [unfolded open_position_def Let_def]] by blast

lemma close_position_cases:
  assumes "close_position cfg s smb d p r = Inr (b, s')"
  shows "(\<not> b \<and> s' = s \<and> map_of (positions s) smb = None) \<or>
     (b \<and> (\<exists>pos. map_of (positions s) smb = Some pos \<and> entry_value pos \<noteq> 0 \<and>
        positions s' = AList.delete smb (positions s) \<and>
        cash s' = cash s + (p * (1 - slippage_pct cfg) * of_int (shares pos) -
            max (commission_per_trade cfg)
              (p * (1 - slippage_pct cfg) * of_int (shares pos) * commission_pct cfg)) \<and>
        (\<exists>t. closed_trades s' = closed_trades s @ [t] \<and>
             ct_exit_price t = p * (1 - slippage_pct cfg) \<and> ct_shares t = shares pos \<and>
             ct_exit_reason t = r \<and> ct_symbol t = smb)))"
proof (cases "map_of (positions s) smb")
  case None
  with assms show ?thesis by (simp add: close_position_def)
next
  case (Some pos)
  show ?thesis
  proof (cases "entry_value pos = 0")
    case True
    with assms Some show ?thesis by (simp add: close_position_def Let_def)
  next
    case False
    with assms Some have b: "b" and s': "s' = s\<lparr>cash := cash s + (p * (1 - slippage_pct cfg) * of_int (shares pos) -
            max (commission_per_trade cfg)
              (p * (1 - slippage_pct cfg) * of_int (shares pos) * commission_pct cfg)),
         closed_trades := closed_trades s @
           [\<lparr>ct_symbol = smb, ct_entry_date = entry_date pos, ct_exit_date = d,
             ct_entry_price = entry_price pos, ct_exit_price = p * (1 - slippage_pct cfg),
             ct_shares = shares pos,
             ct_pnl = p * (1 - slippage_pct cfg) * of_int (shares pos) -
               max (commission_per_trade cfg)
                 (p * (1 - slippage_pct cfg) * of_int (shares pos) * commission_pct cfg) -
               entry_value pos,
             ct_pnl_pct = (p * (1 - slippage_pct cfg) * of_int (shares pos) -
               max (commission_per_trade cfg)
                 (p * (1 - slippage_pct cfg) * of_int (shares pos) * commission_pct cfg) -
               entry_value pos) / entry_value pos,
             ct_exit_reason = r, ct_hold_days = d - entry_date pos,
             ct_entry_value = entry_value pos,
             ct_exit_value = p * (1 - slippage_pct cfg) * of_int (shares pos)\<rparr>],
         positions := AList.delete smb (positions s)\<rparr>"
      unfolding close_position_def Let_def by simp_all
    from b Some False show ?thesis unfolding s' by simp
  qed
qed


lemma mark_positions_keys:
  "mark_positions cp ps v = (ps', v') \<Longrightarrow> map fst ps' = map fst ps"
proof (induction ps arbitrary: v ps' v')
  case Nil
  then show ?case by simp
next
  case (Cons a ps)
  obtain k p where a: "a = (k, p)" by (cases a)
  show ?case
  proof (cases "map_of cp k")
    case None
    obtain qs w where r: "mark_positions cp ps v = (qs, w)" by (cases "mark_positions cp ps v")
    from Cons.prems a None r have "ps' = (k, p) # qs" by simp
    with Cons.IH [OF r] a show ?thesis by simp
  next
    case (Some price)
    obtain qs w where r: "mark_positions cp ps (v + current_value (update p price)) = (qs, w)"
      by (cases "mark_positions cp ps (v + current_value (update p price))")
    from Cons.prems a Some r have "ps' = (k, update p price) # qs" by (simp add: Let_def)
    with Cons.IH [OF r] a show ?thesis by simp
  qed
qed

lemma err_chain_cases:
  "(if P then Inl e else (if Q then (if R then Inl e' else Inr A) else Inr B)) = Inr s'
   \<Longrightarrow> \<not> P \<and> (s' = A \<or> s' = B)"
  by (simp split: if_splits)

lemma update_equity_result:
  assumes u: "update_equity s d cp = Inr s'"
    and m: "mark_positions cp (positions s) 0 = (ps, v)"
  defines "pk \<equiv> (if peak_equity s < cash s + v then cash s + v else peak_equity s)"
  defines "s1 \<equiv> s\<lparr>positions := ps, equity := cash s + v, peak_equity := pk,
      max_drawdown := (if max_drawdown s < (pk - (cash s + v)) / pk
                       then (pk - (cash s + v)) / pk else max_drawdown s),
      equity_curve := equity_curve s @ [(d, cash s + v, cash s)]\<rparr>"
  shows "pk \<noteq> 0 \<and> (s' = s1 \<or> (\<exists>r. s' = s1\<lparr>daily_returns := r\<rparr>))"
proof -
  note a = u [unfolded update_equity_def Let_def m prod.case, folded pk_def, folded s1_def]
  from err_chain_cases [OF a] show ?thesis by blast
qed

lemma update_equity_fields:
  assumes u: "update_equity s d cp = Inr s'"
    and m: "mark_positions cp (positions s) 0 = (ps, v)"
  shows "positions s' = ps" and "equity s' = cash s + v"
    and "peak_equity s' = max (peak_equity s) (cash s + v)"
    and "peak_equity s' \<noteq> 0"
    and "max_drawdown s' =
           max (max_drawdown s) ((peak_equity s' - equity s') / peak_equity s')"
    and "equity_curve s' = equity_curve s @ [(d, cash s + v, cash s)]"
    and "cash s' = cash s" and "closed_trades s' = closed_trades s"
proof -
  define pk where "pk = (if peak_equity s < cash s + v then cash s + v else peak_equity s)"
  define dd where "dd = (if max_drawdown s < (pk - (cash s + v)) / pk
                       then (pk - (cash s + v)) / pk else max_drawdown s)"
  define s1 where "s1 = s\<lparr>positions := ps, equity := cash s + v, peak_equity := pk,
      max_drawdown := dd, equity_curve := equity_curve s @ [(d, cash s + v, cash s)]\<rparr>"
  from update_equity_result [OF u m]
  have nz: "pk \<noteq> 0" and c: "s' = s1 \<or> (\<exists>r. s' = s1\<lparr>daily_returns := r\<rparr>)"
    unfolding pk_def s1_def dd_def by blast+
  have pk: "pk = max (peak_equity s) (cash s + v)" unfolding pk_def max_def by simp
  have dd: "dd = max (max_drawdown s) ((pk - (cash s + v)) / pk)" unfolding dd_def max_def by simp
  from c show "positions s' = ps" unfolding s1_def by auto
  from c show e: "equity s' = cash s + v" unfolding s1_def by auto
  from c have p: "peak_equity s' = pk" unfolding s1_def by auto
  from p pk show "peak_equity s' = max (peak_equity s) (cash s + v)" by simp
  from p nz show "peak_equity s' \<noteq> 0" by simp
  from c have "max_drawdown s' = dd" unfolding s1_def by auto
  with dd p e show "max_drawdown s' =
           max (max_drawdown s) ((peak_equity s' - equity s') / peak_equity s')" by simp
  from c show "equity_curve s' = equity_curve s @ [(d, cash s + v, cash s)]"
    unfolding s1_def by auto
  from c show "cash s' = cash s" unfolding s1_def by auto
  from c show "closed_trades s' = closed_trades s" unfolding s1_def by auto
qed

lemma commit_position_sel:
  "positions (commit_position s smb d a m stp pv tc) =
     AList.update smb \<lparr>symbol = smb, entry_date = d, entry_price = a, shares = m,
          stop_price = stp, entry_value = pv, current_value = 0, unrealized_pnl = 0\<rparr> (positions s)"
  "cash (commit_position s smb d a m stp pv tc) = cash s - tc"
  "closed_trades (commit_position s smb d a m stp pv tc) = closed_trades s"
  "equity (commit_position s smb d a m stp pv tc) = equity s"
  "peak_equity (commit_position s smb d a m stp pv tc) = peak_equity s"
  "max_drawdown (commit_position s smb d a m stp pv tc) = max_drawdown s"
  "equity_curve (commit_position s smb d a m stp pv tc) = equity_curve s"
  by (simp_all add: commit_position_def)

lemma step_Open:
  assumes "step cfg s (Open smb d p n stp) = Inr s'"
  obtains b where "open_position cfg s smb d p n stp = Inr (b, s')"
proof (cases "open_position cfg s smb d p n stp")
  case (Inl e)
  with assms show ?thesis by simp
next
  case (Inr x)
  obtain b t where x: "x = (b, t)" by (cases x)
  with assms Inr have "t = s'" by simp
  with Inr x have "open_position cfg s smb d p n stp = Inr (b, s')" by simp
  then show ?thesis by (rule that)
qed

lemma step_Close:
  assumes "step cfg s (Close smb d p r) = Inr s'"
  obtains b where "close_position cfg s smb d p r = Inr (b, s')"
proof (cases "close_position cfg s smb d p r")
  case (Inl e)
  with assms show ?thesis by simp
next
  case (Inr x)
  obtain b t where x: "x = (b, t)" by (cases x)
  with assms Inr have "t = s'" by simp
  with Inr x have "close_position cfg s smb d p r = Inr (b, s')" by simp
  then show ?thesis by (rule that)
qed

lemma step_keys:
  assumes st: "step cfg s x = Inr s'" and dist: "distinct (map fst (positions s))"
  shows "distinct (map fst (positions s'))"
proof (cases x)
  case (Open smb d p n stp)
  from st [unfolded Open] obtain b where "open_position cfg s smb d p n stp = Inr (b, s')"
    by (rule step_Open)
  from open_position_cases [OF this]
  have "positions s' = positions s \<or> (\<exists>pos. positions s' = AList.update smb pos (positions s))"
    by (metis commit_position_sel(1))
  with dist show ?thesis by (auto simp: distinct_update)
next
  case (Close smb d p r)
  from st [unfolded Close] obtain b where "close_position cfg s smb d p r = Inr (b, s')"
    by (rule step_Close)
  from close_position_cases [OF this]
  have "positions s' = positions s \<or> positions s' = AList.delete smb (positions s)"
    by blast
  with dist show ?thesis by (auto simp: distinct_delete)
next
  case (UpdateEquity d cp)
  with st have u: "update_equity s d cp = Inr s'" by simp
  obtain ps v where m: "mark_positions cp (positions s) 0 = (ps, v)"
    by (cases "mark_positions cp (positions s) 0")
  from update_equity_fields(1) [OF u m] mark_positions_keys [OF m] dist
  show ?thesis by simp
qed

lemma run_ops_Cons:
  assumes "run_ops cfg s (x # xs) = Inr s'"
  obtains s1 where "step cfg s x = Inr s1" and "run_ops cfg s1 xs = Inr s'"
  using assms by (cases "step cfg s x") simp_all

lemma run_ops_keys:
  "run_ops cfg s xs = Inr s' \<Longrightarrow> distinct (map fst (positions s))
     \<Longrightarrow> distinct (map fst (positions s'))"
proof (induction xs arbitrary: s)
  case Nil
  then show ?case by simp
next
  case (Cons x xs)
  from Cons.prems(1) obtain s1 where s1: "step cfg s x = Inr s1"
      and r: "run_ops cfg s1 xs = Inr s'"
    by (rule run_ops_Cons)
  from step_keys [OF s1 Cons.prems(2)] Cons.IH [OF r] show ?case by simp
qed

lemma open_position_rejects:
  assumes "dict_in smb (positions s) \<or> \<not> int (length (positions s)) < max_positions cfg"
  shows "open_position cfg s smb d p n stp = Inr (False, s)"
proof (cases "dict_in smb (positions s)")
  case True
  then show ?thesis by (simp add: open_position_def)
next
  case False
  with assms have "\<not> can_open_position cfg s" by (simp add: can_open_position_def)
  with False show ?thesis by (simp add: open_position_def)
qed

subsection \<open>At most one position per symbol\<close>

lemma run_one_open: "run_ops default_config (init default_config) one_open = Inr state_one_open"
  by (simp add: one_open_def state_one_open_def default_config_def init_def open_position_def
      dict_in_def can_open_position_def commit_position_def Let_def)

text \<open>
  Claim C3. Whatever sequence of operations has run from the initial state, the ledger
  holds at most one open position for a symbol (its keys are distinct), and
  \<^verbatim>\<open>open_position\<close> returns failure and leaves the whole state as it is when the
  symbol already has an open position or the number of open positions is not below
  \<^verbatim>\<open>max_positions\<close>.
\<close>

theorem ledger_at_most_one_position:
  "run_ops cfg (init cfg) ops = Inr s \<Longrightarrow>
   distinct (map fst (positions s)) \<and>
   (\<forall>smb d p n stp.
       dict_in smb (positions s) \<or> \<not> int (length (positions s)) < max_positions cfg
       \<longrightarrow> open_position cfg s smb d p n stp = Inr (False, s))"
proof
  assume r: "run_ops cfg (init cfg) ops = Inr s"
  show "distinct (map fst (positions s))"
    by (rule run_ops_keys [OF r]) (simp add: init_def)
  show "\<forall>smb d p n stp.
       dict_in smb (positions s) \<or> \<not> int (length (positions s)) < max_positions cfg
       \<longrightarrow> open_position cfg s smb d p n stp = Inr (False, s)"
    using open_position_rejects by blast
qed

text \<open>The claim at a run of one open, followed by a second open of the same symbol.\<close>

theorem ledger_at_most_one_position_witness:
  "run_ops default_config (init default_config) one_open = Inr state_one_open \<and>
   distinct (map fst (positions state_one_open)) \<and>
   dict_in ''AAPL'' (positions state_one_open) \<and>
   open_position default_config state_one_open ''AAPL'' 1 100 10 95 = Inr (False, state_one_open)"
proof -
  have d: "dict_in ''AAPL'' (positions state_one_open)"
    by (simp add: dict_in_def state_one_open_def)
  from ledger_at_most_one_position [OF run_one_open] d run_one_open show ?thesis by blast
qed

end
